theory Spec2Isabelle
  imports Main "HOL-Library.Word"
begin

section \<open>Icon asset scripts of MingLog\<close>

text \<open>
  Two scripts are embedded here:
  \<^item> \<^verbatim>\<open>apps/tauri-desktop/src-tauri/create_ico.py\<close>, which assembles a 16x16 ICO file
    by hand with \<^verbatim>\<open>struct.pack\<close> and writes it to \<^verbatim>\<open>icons/icon.ico\<close>;
  \<^item> \<^verbatim>\<open>apps/desktop/assets/create-icons.py\<close>, which draws icons with PIL and saves
    them as PNG and ICO files.
  Byte strings are lists of 8-bit words, Python integers are \<open>int\<close>, every exception is
  a value of \<open>pyexc\<close>, and the file system and the standard output are passed explicitly.
\<close>

subsection \<open>Exceptions\<close>

text \<open>
  The exceptions the two scripts can meet. \<open>NonException\<close> stands for the classes that
  derive from \<^verbatim>\<open>BaseException\<close> but not from \<^verbatim>\<open>Exception\<close>
  (\<^verbatim>\<open>KeyboardInterrupt\<close>, \<^verbatim>\<open>SystemExit\<close>); \<open>OtherException\<close> for any
  other subclass of \<^verbatim>\<open>Exception\<close>, named by its class.
\<close>

datatype pyexc =
    StructError
  | OSError
  | IndexError
  | ImportError
  | OtherException string
  | NonException string

fun is_Exception :: "pyexc \<Rightarrow> bool" where
  "is_Exception (NonException _) = False"
| "is_Exception _ = True"

fun is_ImportError :: "pyexc \<Rightarrow> bool" where
  "is_ImportError ImportError = True"
| "is_ImportError _ = False"

subsection \<open>\<^verbatim>\<open>struct.pack\<close> with the little-endian standard sizes\<close>

type_synonym byte = "8 word"

text \<open>The format codes used by the script, after the byte-order mark \<^verbatim>\<open><\<close>.\<close>

datatype fmt_code = Fmt_B | Fmt_H | Fmt_I

fun fmt_size :: "fmt_code \<Rightarrow> nat" where
  "fmt_size Fmt_B = 1"
| "fmt_size Fmt_H = 2"
| "fmt_size Fmt_I = 4"

text \<open>The \<open>n\<close> low bytes of \<open>v\<close>, least significant first.\<close>

fun le_bytes :: "nat \<Rightarrow> int \<Rightarrow> byte list" where
  "le_bytes 0 v = []"
| "le_bytes (Suc n) v = word_of_int (v mod 256) # le_bytes n (v div 256)"

definition in_range :: "fmt_code \<Rightarrow> int \<Rightarrow> bool" where
  "in_range c v = (0 \<le> v \<and> v < 2 ^ (8 * fmt_size c))"

text \<open>
  \<^verbatim>\<open>struct.pack(fmt, *values)\<close>: it raises \<^verbatim>\<open>struct.error\<close> when the number of
  values is not the number of format codes, and when a value does not fit its
  unsigned field; otherwise the fields follow one another without padding.
\<close>

definition struct_pack :: "fmt_code list \<Rightarrow> int list \<Rightarrow> pyexc + byte list" where
  "struct_pack fmt vals =
     (if length vals \<noteq> length fmt then Inl StructError
      else if \<not> list_all (\<lambda>(c, v). in_range c v) (zip fmt vals) then Inl StructError
      else Inr (concat (map (\<lambda>(c, v). le_bytes (fmt_size c) v) (zip fmt vals))))"

text \<open>Reading a little-endian unsigned field back (\<^verbatim>\<open>int.from_bytes(bs, 'little')\<close>).\<close>

fun le_int :: "byte list \<Rightarrow> int" where
  "le_int [] = 0"
| "le_int (b # bs) = uint b + 256 * le_int bs"

definition field_at :: "nat \<Rightarrow> nat \<Rightarrow> byte list \<Rightarrow> int" where
  "field_at off n bs = le_int (take n (drop off bs))"

text \<open>The bytes of a block that was built, and no bytes for one whose construction raised.\<close>

fun built :: "pyexc + byte list \<Rightarrow> byte list" where
  "built (Inr bs) = bs"
| "built (Inl e) = []"

subsection \<open>The blocks of \<^verbatim>\<open>create_simple_ico\<close>\<close>

text \<open>Line 10: \<^verbatim>\<open>struct.pack('<HHH', 0, 1, 1)\<close>.\<close>

definition ico_header :: "pyexc + byte list" where
  "ico_header = struct_pack [Fmt_H, Fmt_H, Fmt_H] [0, 1, 1]"

text \<open>Lines 13 to 18: \<^verbatim>\<open>struct.pack('<BBBBHHII', 16, 16, 0, 0, 1, 32, 40 + 16*16*4, 22)\<close>.\<close>

definition ico_dir :: "pyexc + byte list" where
  "ico_dir = struct_pack [Fmt_B, Fmt_B, Fmt_B, Fmt_B, Fmt_H, Fmt_H, Fmt_I, Fmt_I]
                         [16, 16, 0, 0, 1, 32, 40 + 16 * 16 * 4, 22]"

text \<open>
  Lines 21 to 27: the format string \<^verbatim>\<open>'<IIIHHIIIIIII'\<close> has twelve codes, and
  eleven values follow it: 40, 16, 32, 1, 32 and six zeros.
\<close>

definition bmp_header_fmt :: "fmt_code list" where
  "bmp_header_fmt = [Fmt_I, Fmt_I, Fmt_I, Fmt_H, Fmt_H,
                     Fmt_I, Fmt_I, Fmt_I, Fmt_I, Fmt_I, Fmt_I, Fmt_I]"

definition bmp_header_values :: "int list" where
  "bmp_header_values = [40, 16, 32, 1, 32, 0, 0, 0, 0, 0, 0]"

definition bmp_header :: "pyexc + byte list" where
  "bmp_header = struct_pack bmp_header_fmt bmp_header_values"

text \<open>Line 30: \<^verbatim>\<open>b'\x80\x80\xFF\xFF' * (16 * 16)\<close>.\<close>

definition pixel_data :: "byte list" where
  "pixel_data = concat (replicate (16 * 16) [0x80, 0x80, 0xFF, 0xFF])"

text \<open>Line 33: \<^verbatim>\<open>b'\x00' * (16 * 2)\<close>.\<close>

definition and_mask :: "byte list" where
  "and_mask = concat (replicate (16 * 2) [0x00])"

subsection \<open>The file system and the run of \<^verbatim>\<open>create_simple_ico\<close>\<close>

datatype node = Dir | File "byte list"

type_synonym fs = "string \<rightharpoonup> node"

text \<open>
  \<^verbatim>\<open>open(path, 'wb')\<close> for a path \<open>parent/name\<close>: the parent must be a directory and
  the path itself must not be one; the file is created or truncated.
\<close>

definition open_wb :: "fs \<Rightarrow> string \<Rightarrow> string \<Rightarrow> pyexc + fs" where
  "open_wb fs parent path =
     (case fs parent of
        Some Dir \<Rightarrow>
          (case fs path of
             Some Dir \<Rightarrow> Inl OSError
           | _ \<Rightarrow> Inr (fs(path \<mapsto> File [])))
      | _ \<Rightarrow> Inl OSError)"

text \<open>\<^verbatim>\<open>f.write(data)\<close> on the open file: the bytes are appended.\<close>

definition fwrite :: "string \<Rightarrow> byte list \<Rightarrow> fs \<Rightarrow> fs" where
  "fwrite path data fs =
     (case fs path of
        Some (File bs) \<Rightarrow> fs(path \<mapsto> File (bs @ data))
      | _ \<Rightarrow> fs)"

definition ico_path :: string where
  "ico_path = ''icons/icon.ico''"

text \<open>
  The function, statement by statement: the three packed blocks are built first, each
  of which may raise; the file is opened only after the five blocks exist. The result
  is the file system after the call and the exception that left the function, if any.
\<close>

definition create_simple_ico :: "fs \<Rightarrow> fs \<times> pyexc option" where
  "create_simple_ico fs =
     (case ico_header of
        Inl e \<Rightarrow> (fs, Some e)
      | Inr hdr \<Rightarrow>
     (case ico_dir of
        Inl e \<Rightarrow> (fs, Some e)
      | Inr dir \<Rightarrow>
     (case bmp_header of
        Inl e \<Rightarrow> (fs, Some e)
      | Inr bmp \<Rightarrow>
     (case open_wb fs ''icons'' ico_path of
        Inl e \<Rightarrow> (fs, Some e)
      | Inr fs1 \<Rightarrow>
          (fwrite ico_path and_mask
            (fwrite ico_path pixel_data
              (fwrite ico_path bmp
                (fwrite ico_path dir
                  (fwrite ico_path hdr fs1)))), None)))))"

text \<open>A working directory that holds an empty directory \<^verbatim>\<open>icons\<close> and nothing else.\<close>

definition fs_icons :: fs where
  "fs_icons = Map.empty(''icons'' \<mapsto> Dir)"

text \<open>The bytes of \<^verbatim>\<open>icons/icon.ico\<close> in a file system, if it is a file there.\<close>

definition emitted :: "fs \<Rightarrow> byte list option" where
  "emitted fs = (case fs ico_path of Some (File bs) \<Rightarrow> Some bs | _ \<Rightarrow> None)"

text \<open>
  The AND mask in the words of the specification, to compare \<open>and_mask\<close> with:
  \<open>h\<close> rows of \<open>w\<close> pixels at 1 bit per pixel, each row padded to a multiple of 4 bytes.
\<close>

definition spec_and_mask_length :: "nat \<Rightarrow> nat \<Rightarrow> nat" where
  "spec_and_mask_length w h = h * (((w + 7) div 8 + 3) div 4 * 4)"

section \<open>The script \<^verbatim>\<open>create-icons.py\<close>\<close>

text \<open>
  The script draws with PIL, saves through PIL and prints to the standard output;
  none of the three is code of the repository. The environment of a run says whether
  \<^verbatim>\<open>from PIL import ...\<close> succeeds, whether the file is run as \<^verbatim>\<open>__main__\<close>, which
  directory holds the script, and what each external call does:
  \<^item> \<open>draw\<close> is the result of \<^verbatim>\<open>create_icon(size)\<close> (lines 11 to 63, which only call
    PIL): an image, or the exception that leaves the function;
  \<^item> \<open>encode\<close> is the effect of \<^verbatim>\<open>img.save(path, ...)\<close>: the bytes it leaves at \<open>path\<close>,
    if it writes there, and the exception it raises, if any;
  \<^item> \<open>stdout_error\<close> is the exception that \<^verbatim>\<open>print\<close> raises for a message, if any: every
    message of the script holds characters outside ASCII, so \<^verbatim>\<open>print\<close> raises
    \<^verbatim>\<open>UnicodeEncodeError\<close> where the encoding of the standard output cannot
    represent them, and nothing of the message is written then.
  All three depend on the number of external calls made before, so that the same call
  may succeed once and fail later. \<open>ImportError\<close> stands for the class and its
  subclasses. The text of a message is not modelled: each \<^verbatim>\<open>print\<close> of the script is a
  constructor of \<open>msg\<close>.
\<close>

datatype msg =
    MsgStart
  | MsgSaved string
  | MsgIcoSaved
  | MsgIcoFailed pyexc
  | MsgDone
  | MsgNote
  | MsgNeedPillow
  | MsgManualHint

datatype save_fmt = PNG | ICO "(nat \<times> nat) list"

record world =
  files :: "string \<rightharpoonup> byte list"
  stdout :: "msg list"
  calls :: nat

record 'img env =
  pil_installed :: bool
  is_main :: bool
  assets_dir :: string
  draw :: "nat \<Rightarrow> nat \<Rightarrow> pyexc + 'img"
  encode :: "nat \<Rightarrow> 'img \<Rightarrow> string \<Rightarrow> save_fmt \<Rightarrow> byte list option \<times> pyexc option"
  stdout_error :: "nat \<Rightarrow> msg \<Rightarrow> pyexc option"

datatype outcome = Finished | Uncaught pyexc

definition print :: "'img env \<Rightarrow> msg \<Rightarrow> world \<Rightarrow> (pyexc + unit) \<times> world" where
  "print env m w =
     (case stdout_error env (calls w) m of
        None \<Rightarrow> (Inr (), w\<lparr>stdout := stdout w @ [m], calls := Suc (calls w)\<rparr>)
      | Some e \<Rightarrow> (Inl e, w\<lparr>calls := Suc (calls w)\<rparr>))"

definition create_icon :: "'img env \<Rightarrow> nat \<Rightarrow> world \<Rightarrow> (pyexc + 'img) \<times> world" where
  "create_icon env sz w = (draw env (calls w) sz, w\<lparr>calls := Suc (calls w)\<rparr>)"

definition save :: "'img env \<Rightarrow> 'img \<Rightarrow> string \<Rightarrow> save_fmt \<Rightarrow> world \<Rightarrow> (pyexc + unit) \<times> world" where
  "save env img path fmt w =
     (case encode env (calls w) img path fmt of
        (written, exc) \<Rightarrow>
          ((case exc of None \<Rightarrow> Inr () | Some e \<Rightarrow> Inl e),
           w\<lparr>files := (case written of None \<Rightarrow> files w | Some bs \<Rightarrow> (files w)(path \<mapsto> bs)),
             calls := Suc (calls w)\<rparr>))"

text \<open>\<^verbatim>\<open>os.path.join(a, b)\<close> with the POSIX separator.\<close>

definition path_join :: "string \<Rightarrow> string \<Rightarrow> string" where
  "path_join a b =
     (if b \<noteq> [] \<and> hd b = CHR ''/'' then b
      else if a = [] then b
      else if last a = CHR ''/'' then a @ b
      else a @ ''/'' @ b)"

text \<open>\<^verbatim>\<open>str(n)\<close> for a natural number; \<open>digit\<close> is only applied below 10.\<close>

definition digit :: "nat \<Rightarrow> char" where
  "digit d = ''0123456789'' ! d"

fun str_nat :: "nat \<Rightarrow> string" where
  "str_nat n = (if n < 10 then [digit n] else str_nat (n div 10) @ [digit (n mod 10)])"

declare str_nat.simps [simp del]

text \<open>Line 76: \<^verbatim>\<open>f"icon-{size}.png"\<close>.\<close>

definition png_name :: "nat \<Rightarrow> string" where
  "png_name sz = ''icon-'' @ str_nat sz @ ''.png''"

definition sizes :: "nat list" where
  "sizes = [16, 24, 32, 48, 64, 128, 256, 512]"

definition ico_sizes :: "(nat \<times> nat) list" where
  "ico_sizes = [(16, 16), (24, 24), (32, 32), (48, 48), (64, 64), (128, 128), (256, 256)]"

text \<open>
  Lines 74 to 79: the loop over \<open>sizes\<close>. An exception of \<^verbatim>\<open>create_icon\<close>, of
  \<^verbatim>\<open>img.save\<close> or of \<^verbatim>\<open>print\<close> leaves the loop.
\<close>

fun png_loop :: "'img env \<Rightarrow> nat list \<Rightarrow> world \<Rightarrow> (pyexc + unit) \<times> world" where
  "png_loop env [] w = (Inr (), w)"
| "png_loop env (sz # rest) w =
     (case create_icon env sz w of
        (Inl e, w1) \<Rightarrow> (Inl e, w1)
      | (Inr img, w1) \<Rightarrow>
          (case save env img (path_join (assets_dir env) (png_name sz)) PNG w1 of
             (Inl e, w2) \<Rightarrow> (Inl e, w2)
           | (Inr u, w2) \<Rightarrow>
               (case print env (MsgSaved (png_name sz)) w2 of
                  (Inl e, w3) \<Rightarrow> (Inl e, w3)
                | (Inr u, w3) \<Rightarrow> png_loop env rest w3)))"

text \<open>Lines 66 to 84 of \<^verbatim>\<open>main\<close>: everything before the \<^verbatim>\<open>try\<close>.\<close>

definition png_phase :: "'img env \<Rightarrow> world \<Rightarrow> (pyexc + unit) \<times> world" where
  "png_phase env w =
     (case print env MsgStart w of
        (Inl e, w0) \<Rightarrow> (Inl e, w0)
      | (Inr u, w0) \<Rightarrow>
     (case png_loop env sizes w0 of
        (Inl e, w1) \<Rightarrow> (Inl e, w1)
      | (Inr u, w1) \<Rightarrow>
     (case create_icon env 256 w1 of
        (Inl e, w2) \<Rightarrow> (Inl e, w2)
      | (Inr img, w2) \<Rightarrow>
     (case save env img (path_join (assets_dir env) ''icon.png'') PNG w2 of
        (Inl e, w3) \<Rightarrow> (Inl e, w3)
      | (Inr u, w3) \<Rightarrow> print env (MsgSaved ''icon.png'') w3))))"

text \<open>Lines 89 to 91: \<^verbatim>\<open>ico_images.append(create_icon(size))\<close> for each pair.\<close>

fun ico_images_loop ::
  "'img env \<Rightarrow> (nat \<times> nat) list \<Rightarrow> 'img list \<Rightarrow> world \<Rightarrow> (pyexc + 'img list) \<times> world" where
  "ico_images_loop env [] acc w = (Inr acc, w)"
| "ico_images_loop env ((sz, other) # rest) acc w =
     (case create_icon env sz w of
        (Inl e, w1) \<Rightarrow> (Inl e, w1)
      | (Inr img, w1) \<Rightarrow> ico_images_loop env rest (acc @ [img]) w1)"

definition ico_file :: "'img env \<Rightarrow> string" where
  "ico_file env = path_join (assets_dir env) ''icon.ico''"

text \<open>Lines 88 to 95: the body of the \<^verbatim>\<open>try\<close>, with the \<^verbatim>\<open>print\<close> of line 95.\<close>

definition ico_export :: "'img env \<Rightarrow> world \<Rightarrow> (pyexc + unit) \<times> world" where
  "ico_export env w =
     (case ico_images_loop env ico_sizes [] w of
        (Inl e, w1) \<Rightarrow> (Inl e, w1)
      | (Inr imgs, w1) \<Rightarrow>
          (case imgs of
             [] \<Rightarrow> (Inl IndexError, w1)
           | img0 # others \<Rightarrow>
               (case save env img0 (ico_file env) (ICO ico_sizes) w1 of
                  (Inl e, w2) \<Rightarrow> (Inl e, w2)
                | (Inr u, w2) \<Rightarrow> print env MsgIcoSaved w2)))"

text \<open>Lines 99 and 100: the two closing messages.\<close>

definition closing :: "'img env \<Rightarrow> world \<Rightarrow> (pyexc + unit) \<times> world" where
  "closing env w =
     (case print env MsgDone w of
        (Inl e, w1) \<Rightarrow> (Inl e, w1)
      | (Inr u, w1) \<Rightarrow> print env MsgNote w1)"

text \<open>
  \<^verbatim>\<open>main\<close>: \<^verbatim>\<open>except Exception as e\<close> (line 96) handles the exceptions of the
  \<^verbatim>\<open>try\<close> that derive from \<^verbatim>\<open>Exception\<close>, and prints the warning of line 97; any
  other exception, and an exception of that \<^verbatim>\<open>print\<close>, leaves \<^verbatim>\<open>main\<close>.
\<close>

definition main :: "'img env \<Rightarrow> world \<Rightarrow> (pyexc + unit) \<times> world" where
  "main env w =
     (case png_phase env w of
        (Inl e, w1) \<Rightarrow> (Inl e, w1)
      | (Inr u, w1) \<Rightarrow>
          (case ico_export env w1 of
             (Inl e, w2) \<Rightarrow>
               (if is_Exception e
                then (case print env (MsgIcoFailed e) w2 of
                        (Inl e', w3) \<Rightarrow> (Inl e', w3)
                      | (Inr u, w3) \<Rightarrow> closing env w3)
                else (Inl e, w2))
           | (Inr u, w2) \<Rightarrow> closing env w2))"

text \<open>
  Lines 105 to 107: the handler of \<^verbatim>\<open>except ImportError\<close> prints two messages; an
  exception of either \<^verbatim>\<open>print\<close> is uncaught.
\<close>

definition import_handler :: "'img env \<Rightarrow> world \<Rightarrow> outcome \<times> world" where
  "import_handler env w =
     (case print env MsgNeedPillow w of
        (Inl e, w1) \<Rightarrow> (Uncaught e, w1)
      | (Inr u, w1) \<Rightarrow>
          (case print env MsgManualHint w1 of
             (Inl e, w2) \<Rightarrow> (Uncaught e, w2)
           | (Inr u, w2) \<Rightarrow> (Finished, w2)))"

text \<open>
  The module: the outer \<^verbatim>\<open>try\<close> holds the import of PIL, the two definitions and the
  call of \<^verbatim>\<open>main\<close>. An \<^verbatim>\<open>ImportError\<close> of the import, or one that leaves \<^verbatim>\<open>main\<close>,
  goes to the handler; any other exception that leaves \<^verbatim>\<open>main\<close> is uncaught.
\<close>

definition script :: "'img env \<Rightarrow> world \<Rightarrow> outcome \<times> world" where
  "script env w =
     (if pil_installed env then
        (if is_main env then
           (case main env w of
              (Inl e, w1) \<Rightarrow>
                (if is_ImportError e then import_handler env w1 else (Uncaught e, w1))
            | (Inr u, w1) \<Rightarrow> (Finished, w1))
         else (Finished, w))
      else import_handler env w)"

text \<open>
  Four runs. In \<open>env_ico_fails\<close> every image is drawn, every PNG is saved and every
  message is printed, while saving an ICO raises \<^verbatim>\<open>OSError\<close> and writes nothing.
  In \<open>env_interrupt\<close> saving the ICO raises \<^verbatim>\<open>KeyboardInterrupt\<close> instead. In
  \<open>env_warning_fails\<close> the standard output refuses the warning of line 97. In
  \<open>env_no_pil\<close> PIL is missing, and in \<open>env_no_pil_ascii\<close> PIL is missing and the
  standard output cannot encode any message.
\<close>

definition env_ico_fails :: "nat env" where
  "env_ico_fails =
     \<lparr>pil_installed = True, is_main = True, assets_dir = ''/assets'',
      draw = (\<lambda>k sz. Inr sz),
      encode = (\<lambda>k img path fmt.
         (case fmt of PNG \<Rightarrow> (Some [0x89], None) | ICO ss \<Rightarrow> (None, Some OSError))),
      stdout_error = (\<lambda>k m. None)\<rparr>"



definition env_no_pil :: "nat env" where
  "env_no_pil = env_ico_fails\<lparr>pil_installed := False\<rparr>"

definition env_no_pil_ascii :: "nat env" where
  "env_no_pil_ascii = env_ico_fails\<lparr>pil_installed := False,
     stdout_error := (\<lambda>k m. Some (OtherException ''UnicodeEncodeError''))\<rparr>"

definition world0 :: world where
  "world0 = \<lparr>files = Map.empty, stdout = [], calls = 0\<rparr>"

section \<open>Properties of \<^verbatim>\<open>struct.pack\<close> and of the ICO blocks\<close>

lemma le_bytes_1: "le_bytes 1 v = [word_of_int (v mod 256)]"
  unfolding One_nat_def by (simp only: le_bytes.simps)

lemma two_Suc: "(2::nat) = Suc (Suc 0)"
  by simp

lemma four_Suc: "(4::nat) = Suc (Suc (Suc (Suc 0)))"
  by simp

lemma le_bytes_2:
  "le_bytes 2 v = [word_of_int (v mod 256), word_of_int (v div 256 mod 256)]"
  unfolding two_Suc by (simp only: le_bytes.simps)

lemma le_bytes_4:
  "le_bytes 4 v = [word_of_int (v mod 256), word_of_int (v div 256 mod 256),
     word_of_int (v div 256 div 256 mod 256),
     word_of_int (v div 256 div 256 div 256 mod 256)]"
  unfolding four_Suc by (simp only: le_bytes.simps)

lemma length_le_bytes: "length (le_bytes n v) = n"
  by (induction n arbitrary: v) simp_all

text \<open>A call with the wrong number of values raises, whatever the values are.\<close>

lemma struct_pack_arity:
  "length vals \<noteq> length fmt \<Longrightarrow> struct_pack fmt vals = Inl StructError"
  by (simp add: struct_pack_def)

lemma length_packed_fields:
  "length fmt = length vals \<Longrightarrow>
   length (concat (map (\<lambda>(c, v). le_bytes (fmt_size c) v) (zip fmt vals)))
     = sum_list (map fmt_size fmt)"
  by (induction fmt vals rule: list_induct2) (simp_all add: length_le_bytes)

text \<open>A successful call returns as many bytes as the format codes ask for.\<close>

lemma struct_pack_length:
  assumes "struct_pack fmt vals = Inr bs"
  shows "length bs = sum_list (map fmt_size fmt)"
proof -
  from assms have len: "length fmt = length vals"
    by (auto simp: struct_pack_def split: if_splits)
  from assms have "bs = concat (map (\<lambda>(c, v). le_bytes (fmt_size c) v) (zip fmt vals))"
    by (auto simp: struct_pack_def split: if_splits)
  with len show ?thesis
    by (simp add: length_packed_fields)
qed

lemma ico_header_bytes: "ico_header = Inr [0, 0, 1, 0, 1, 0]"
  by (simp add: ico_header_def struct_pack_def in_range_def le_bytes_2)

lemma ico_dir_bytes:
  "ico_dir = Inr [16, 16, 0, 0, 1, 0, 32, 0, 0x28, 0x04, 0, 0, 22, 0, 0, 0]"
  by (simp add: ico_dir_def struct_pack_def in_range_def le_bytes_1 le_bytes_2 le_bytes_4)

lemma bmp_header_arity: "length bmp_header_fmt = 12 \<and> length bmp_header_values = 11"
  by (simp add: bmp_header_fmt_def bmp_header_values_def)

lemma bmp_header_raises: "bmp_header = Inl StructError"
  unfolding bmp_header_def by (rule struct_pack_arity) (simp add: bmp_header_arity)

text \<open>
  The call of line 21 raises before the file is opened, so every run leaves the file
  system as it found it.
\<close>

lemma create_simple_ico_raises: "create_simple_ico fs = (fs, Some StructError)"
  by (simp add: create_simple_ico_def ico_header_bytes ico_dir_bytes bmp_header_raises)

lemma emitted_fs_icons: "emitted fs_icons = None"
  by (simp add: emitted_def fs_icons_def ico_path_def)

lemma length_concat_replicate: "length (concat (replicate n xs)) = n * length xs"
  by (induction n) simp_all

lemma pixel_data_length: "length pixel_data = 1024"
  by (simp add: pixel_data_def length_concat_replicate)

lemma and_mask_length: "length and_mask = 32"
  by (simp add: and_mask_def length_concat_replicate)

section \<open>The claims about \<^verbatim>\<open>create_simple_ico\<close>\<close>

text \<open>
  C1. The claim: the byte-size field of the directory entry is
  \<open>40 + W * H * 4 + and_mask_length\<close>. In the code the field (bytes 8 to 11 of the
  entry) holds \<open>40 + 16 * 16 * 4 = 1064\<close>: the 32 bytes of the AND mask, which the
  function lays out after the pixel data, are not counted, and the field differs from
  the size of the three blocks that follow the directory entry.
\<close>

theorem ico_dir_size_omits_and_mask:
  "field_at 8 4 (built ico_dir) = 40 + 16 * 16 * 4
   \<and> 40 + length pixel_data + length and_mask = 1096
   \<and> field_at 8 4 (built ico_dir) \<noteq> 40 + int (length pixel_data) + int (length and_mask)"
  by (simp add: ico_dir_bytes field_at_def pixel_data_length and_mask_length)

text \<open>
  C2. The claim: the AND mask has 16 rows, each padded to a multiple of 4 bytes, 64
  bytes in all. The expression of line 33, commented as 2 bytes per row (padded), has
  32 bytes, half of what rows padded to 4 bytes take; and the run from a directory that
  holds \<^verbatim>\<open>icons\<close> raises before that line, so that no mask is emitted at all.
\<close>

theorem and_mask_shorter_than_padded:
  "length and_mask = 32
   \<and> spec_and_mask_length 16 16 = 64
   \<and> length and_mask \<noteq> spec_and_mask_length 16 16
   \<and> snd (create_simple_ico fs_icons) = Some StructError
   \<and> emitted (fst (create_simple_ico fs_icons)) = None"
  by (simp add: and_mask_length spec_and_mask_length_def create_simple_ico_raises
      emitted_fs_icons)

text \<open>
  C3. The claim: with the pixel buffer of 1024 bytes, the pattern 0x80 0x80 0xFF 0xFF
  repeated, the emitted sequence has 1150 bytes. The pixel buffer of the code is that
  one, but the run from a directory that holds \<^verbatim>\<open>icons\<close> ends in \<^verbatim>\<open>struct.error\<close>:
  there is no file afterwards, of 1150 bytes or of any other length.
\<close>

theorem create_simple_ico_scenario_emits_nothing:
  "pixel_data = concat (replicate 256 [0x80, 0x80, 0xFF, 0xFF])
   \<and> length pixel_data = 1024
   \<and> snd (create_simple_ico fs_icons) = Some StructError
   \<and> emitted (fst (create_simple_ico fs_icons)) = None
   \<and> map_option length (emitted (fst (create_simple_ico fs_icons))) \<noteq> Some 1150"
  by (simp add: pixel_data_length create_simple_ico_raises emitted_fs_icons)
    (simp add: pixel_data_def)

text \<open>
  C4. The claim: the height given to the info header is the plain height 16.
  The third value of the call of line 21 is 32.
\<close>

theorem bmp_height_not_plain: "bmp_header_values ! 2 \<noteq> 16"
  by (simp add: bmp_header_values_def)

text \<open>
  C4, amended: the height value given to the info header (the third value, for the
  third 32-bit field) is 32, twice the height 16 that the directory entry stores.
\<close>

theorem bmp_height_doubled:
  "bmp_header_fmt ! 2 = Fmt_I
   \<and> bmp_header_values ! 2 = 32
   \<and> bmp_header_values ! 2 = 2 * field_at 1 1 (built ico_dir)"
  by (simp add: bmp_header_fmt_def bmp_header_values_def ico_dir_bytes field_at_def)

text \<open>
  C5. The claim: the first 6 bytes of the emitted sequence are 0, 0, 1, 0, 1, 0.
  The header block is built with these bytes, but the run from a directory that holds
  \<^verbatim>\<open>icons\<close> ends in \<^verbatim>\<open>struct.error\<close> and emits nothing.
\<close>

theorem ico_header_built_not_emitted:
  "ico_header = Inr [0, 0, 1, 0, 1, 0]
   \<and> snd (create_simple_ico fs_icons) = Some StructError
   \<and> emitted (fst (create_simple_ico fs_icons)) = None"
  by (simp add: ico_header_bytes create_simple_ico_raises emitted_fs_icons)

text \<open>
  C6. The offset field of the directory entry (bytes 12 to 15) holds 22, the length of
  the file header plus the length of the directory entry.
\<close>

theorem ico_dir_offset_22:
  "field_at 12 4 (built ico_dir) = 22
   \<and> field_at 12 4 (built ico_dir) = int (length (built ico_header) + length (built ico_dir))
   \<and> length (built ico_header) = 6 \<and> length (built ico_dir) = 16"
  by (simp add: ico_dir_bytes ico_header_bytes field_at_def)


text \<open>
  C10. The claim: every invocation emits 1118 bytes. The format string of line 21 has
  12 codes for 11 values, the call raises \<^verbatim>\<open>struct.error\<close>, and the run from a
  directory that holds \<^verbatim>\<open>icons\<close> ends with that exception and without a file.
\<close>

theorem create_simple_ico_emits_nothing:
  "length bmp_header_fmt = 12 \<and> length bmp_header_values = 11
   \<and> bmp_header = Inl StructError
   \<and> create_simple_ico fs_icons = (fs_icons, Some StructError)
   \<and> emitted (fst (create_simple_ico fs_icons)) = None"
  by (simp add: bmp_header_arity bmp_header_raises create_simple_ico_raises emitted_fs_icons)

section \<open>The claims about \<^verbatim>\<open>create-icons.py\<close>\<close>

text \<open>
  Drawing and printing leave the files alone; saving writes at most the path it is
  given; a \<^verbatim>\<open>print\<close> that raises writes nothing.
\<close>

lemma print_done:
  "print env m w = (Inr u, w') \<Longrightarrow> stdout w' = stdout w @ [m] \<and> files w' = files w"
  by (auto simp: print_def split: option.splits)
















text \<open>
  C8. The claim: when PIL is missing, the script reports it with a message and ends
  gracefully. Without PIL and on a standard output that cannot encode the messages,
  the first \<^verbatim>\<open>print\<close> of the handler raises: the run ends with that exception
  uncaught and with nothing printed.
\<close>

theorem script_without_pil_unencodable:
  "script env_no_pil_ascii world0
     = (Uncaught (OtherException ''UnicodeEncodeError''),
        \<lparr>files = Map.empty, stdout = [], calls = 1\<rparr>)"
  by (simp add: script_def import_handler_def print_def env_no_pil_ascii_def
      env_ico_fails_def world0_def)

text \<open>
  C8, amended: when the import of PIL fails and the standard output takes the two
  messages of the handler (PIL is needed; or make the icons by hand), the script
  prints them and ends normally, with no uncaught exception; nothing else is printed
  and no file is touched.
\<close>

theorem script_without_pil:
  assumes "\<not> pil_installed env"
    and "print env MsgNeedPillow w = (Inr (), w1)"
    and "print env MsgManualHint w1 = (Inr (), w2)"
  shows "script env w = (Finished, w2)
         \<and> stdout w2 = stdout w @ [MsgNeedPillow, MsgManualHint]
         \<and> files w2 = files w"
proof -
  from assms have "script env w = (Finished, w2)"
    by (simp add: script_def import_handler_def)
  with print_done [OF assms(2)] print_done [OF assms(3)] show ?thesis by simp
qed

theorem script_without_pil_witness:
  "\<not> pil_installed env_no_pil
   \<and> script env_no_pil world0
       = (Finished, \<lparr>files = Map.empty, stdout = [MsgNeedPillow, MsgManualHint], calls = 2\<rparr>)"
proof -
  let ?w1 = "\<lparr>files = Map.empty, stdout = [MsgNeedPillow], calls = 1\<rparr>"
  let ?w2 = "\<lparr>files = Map.empty, stdout = [MsgNeedPillow, MsgManualHint], calls = 2\<rparr>"
  have h1: "\<not> pil_installed env_no_pil"
    by (simp add: env_no_pil_def env_ico_fails_def)
  have h2: "print env_no_pil MsgNeedPillow world0 = (Inr (), ?w1)"
    by (simp add: print_def env_no_pil_def env_ico_fails_def world0_def)
  have h3: "print env_no_pil MsgManualHint ?w1 = (Inr (), ?w2)"
    by (simp add: print_def env_no_pil_def env_ico_fails_def)
  from script_without_pil [OF h1 h2 h3] h1 show ?thesis by simp
qed

end
